theory Spec2Isabelle
  imports Complex_Main "HOL-Library.Word" "HOL-Library.Sublist"
begin

section \<open>JavaScript values read by the viewer glue code\<close>

text \<open>
  A JavaScript string is a sequence of 16-bit code units. \<open>str\<close> writes an ASCII
  literal of the source as such a sequence; code units above 127 are written out.
\<close>

type_synonym jsstring = "16 word list"

definition str :: "string \<Rightarrow> jsstring" where
  "str cs = map (\<lambda>c. of_nat (of_char c)) cs"

text \<open>
  A JavaScript number is a double: not-a-number, an infinity with its sign, or a finite
  value, which is a rational. Both zeros are \<open>Finite 0\<close>: the program only tests
  numbers for truthiness and uses them as map keys, and neither tells the zeros apart.
\<close>

datatype jsnum = NaN | Infinity bool | Finite rat

text \<open>
  The values found in \<open>node.model.raw\<close> (typed \<open>any\<close>; deserialised JSON), with
  \<open>undefined\<close> for what a missing property reads as. Arrays and objects carry their
  identity (a reference), so that equality of \<open>jsval\<close> is the SameValueZero
  comparison a \<open>Map\<close> applies to its keys. An object is the list of its own
  properties.
\<close>

datatype jsval =
    JUndefined
  | JNull
  | JBool bool
  | JNum jsnum
  | JStr jsstring
  | JArr nat "jsval list"
  | JObj nat "(jsstring \<times> jsval) list"

text \<open>What is thrown: a TypeError of the language, or a failure raised by a library.\<close>

datatype js_error = TypeError | Failure jsstring

text \<open>ToBoolean, as applied by \<open>&&\<close>, \<open>||\<close> and \<open>if\<close>.\<close>

fun truthy :: "jsval \<Rightarrow> bool" where
  "truthy JUndefined = False"
| "truthy JNull = False"
| "truthy (JBool b) = b"
| "truthy (JNum n) = (n \<noteq> NaN \<and> n \<noteq> Finite 0)"
| "truthy (JStr s) = (s \<noteq> [])"
| "truthy (JArr r xs) = True"
| "truthy (JObj r fs) = True"

fun nullish :: "jsval \<Rightarrow> bool" where
  "nullish JUndefined = True"
| "nullish JNull = True"
| "nullish v = False"

text \<open>
  Reading property \<open>k\<close> of a value that is neither \<open>undefined\<close> nor \<open>null\<close>, for
  the keys the program reads (\<open>properties\<close>, \<open>id\<close>, \<open>URL_DOC\<close> and the user-data
  key): none of them is defined on a built-in prototype, so the read finds an own property
  of an object or yields \<open>undefined\<close>.
\<close>

fun get_prop :: "jsval \<Rightarrow> jsstring \<Rightarrow> jsval" where
  "get_prop (JObj r fs) k = (case map_of fs k of Some v \<Rightarrow> v | None \<Rightarrow> JUndefined)"
| "get_prop v k = JUndefined"

text \<open>\<open>v.k\<close>: a TypeError on \<open>undefined\<close> and \<open>null\<close>.\<close>

definition member :: "jsval \<Rightarrow> jsstring \<Rightarrow> js_error + jsval" where
  "member v k = (if nullish v then Inl TypeError else Inr (get_prop v k))"

text \<open>\<open>v?.k\<close> and \<open>v?.[k]\<close>: \<open>undefined\<close> on \<open>undefined\<close> and \<open>null\<close>.\<close>

definition opt_member :: "jsval \<Rightarrow> jsstring \<Rightarrow> jsval" where
  "opt_member v k = (if nullish v then JUndefined else get_prop v k)"

text \<open>\<open>a || b\<close>.\<close>

definition js_or :: "jsval \<Rightarrow> jsval \<Rightarrow> jsval" where
  "js_or a b = (if truthy a then a else b)"

text \<open>
  \<open>String.prototype.trim\<close>: strips the white space and line terminators of
  ECMAScript from both ends.
\<close>

definition is_js_whitespace :: "16 word \<Rightarrow> bool" where
  "is_js_whitespace c =
     (c \<in> {0x09, 0x0A, 0x0B, 0x0C, 0x0D, 0x20, 0xA0, 0x1680, 0x2028, 0x2029, 0x202F,
            0x205F, 0x3000, 0xFEFF}
      \<or> (0x2000 \<le> c \<and> c \<le> 0x200A))"

definition trim :: "jsstring \<Rightarrow> jsstring" where
  "trim s = rev (dropWhile is_js_whitespace (rev (dropWhile is_js_whitespace s)))"

section \<open>The world tree and the id-to-node map (main.ts, lines 92-105)\<close>

text \<open>\<open>NodeData\<close>: the node's model id and its raw model data.\<close>

datatype NodeData = NodeData (model_id: jsstring) (raw: jsval)

datatype TreeNode = TreeNode (model: NodeData) (children: "TreeNode list")

text \<open>
  \<open>WorldTree.findAll(predicate)\<close> walks the tree from the root in depth-first
  pre-order and collects the nodes on which the predicate returns a truthy value; an
  exception of the predicate ends the walk.
\<close>

fun walk :: "TreeNode \<Rightarrow> TreeNode list" where
  "walk (TreeNode m cs) = TreeNode m cs # concat (map walk cs)"

fun collect :: "(TreeNode \<Rightarrow> js_error + jsval) \<Rightarrow> TreeNode list \<Rightarrow> js_error + TreeNode list" where
  "collect p [] = Inr []"
| "collect p (n # ns) =
     (case p n of
        Inl e \<Rightarrow> Inl e
      | Inr v \<Rightarrow>
          (case collect p ns of
             Inl e \<Rightarrow> Inl e
           | Inr found \<Rightarrow> Inr (if truthy v then n # found else found)))"

definition findAll :: "(TreeNode \<Rightarrow> js_error + jsval) \<Rightarrow> TreeNode \<Rightarrow> js_error + TreeNode list" where
  "findAll p tree = collect p (walk tree)"

text \<open>\<open>node.model.raw.properties\<close>\<close>

definition raw_properties :: "TreeNode \<Rightarrow> js_error + jsval" where
  "raw_properties node = member (raw (model node)) (str ''properties'')"

text \<open>\<open>node.model.raw.properties.id\<close>\<close>

definition raw_properties_id :: "TreeNode \<Rightarrow> js_error + jsval" where
  "raw_properties_id node =
     (case raw_properties node of
        Inl e \<Rightarrow> Inl e
      | Inr props \<Rightarrow> member props (str ''id''))"

text \<open>
  The predicate of line 98:
  \<open>node.model.raw.properties && node.model.raw.properties.id\<close>.
\<close>

definition has_id :: "TreeNode \<Rightarrow> js_error + jsval" where
  "has_id node =
     (case raw_properties node of
        Inl e \<Rightarrow> Inl e
      | Inr props \<Rightarrow> if truthy props then raw_properties_id node else Inr props)"

definition tn_GenericModels :: "TreeNode \<Rightarrow> js_error + TreeNode list" where
  "tn_GenericModels tree = findAll has_id tree"

text \<open>
  The \<open>forEach\<close> of lines 103-105: \<open>treeNodeMap.set(node.model.raw.properties.id, node)\<close>
  for each collected node in turn, on a map that starts empty.
\<close>

fun fill :: "(jsval \<rightharpoonup> TreeNode) \<Rightarrow> TreeNode list \<Rightarrow> js_error + (jsval \<rightharpoonup> TreeNode)" where
  "fill m [] = Inr m"
| "fill m (n # ns) =
     (case raw_properties_id n of
        Inl e \<Rightarrow> Inl e
      | Inr k \<Rightarrow> fill (m(k \<mapsto> n)) ns)"

definition treeNodeMap :: "TreeNode \<Rightarrow> js_error + (jsval \<rightharpoonup> TreeNode)" where
  "treeNodeMap tree =
     (case tn_GenericModels tree of
        Inl e \<Rightarrow> Inl e
      | Inr nodes \<Rightarrow> fill Map.empty nodes)"

section \<open>The control panel and its handlers (main.ts, lines 107-261)\<close>

text \<open>
  \<open>Box3\<close>, and the section box of lines 111-113 and 157-159: a copy of the scene box
  whose \<open>min.z\<close> is set to \<open>-1\<close> (\<open>max.z *= 1\<close> leaves every double as it is).
\<close>

record Box3 =
  min_x :: jsnum
  min_y :: jsnum
  min_z :: jsnum
  max_x :: jsnum
  max_y :: jsnum
  max_z :: jsnum

definition section_box :: "Box3 \<Rightarrow> Box3" where
  "section_box sceneBox = sceneBox\<lparr>min_z := Finite (- 1)\<rparr>"

text \<open>The calls the program makes on the viewer's extensions, the console and the window.\<close>

datatype call =
    ClearSelection
  | SetCameraView "jsstring list" bool
  | SectionsToggle
  | SectionsSetEnabled bool
  | SectionsSetBox Box3
  | ConsoleLog jsstring
  | WindowOpen jsstring jsstring

text \<open>The three click listeners of main.ts (lines 150, 156 and 180).\<close>

datatype listener =
    ToggleSectionBoxes
  | ResetSectionBoxes
  | OpenUrl jsstring

text \<open>
  A blade of the Tweakpane panel: a button or the drop-down list. \<open>ref\<close> is the identity
  of the blade's API object, which \<open>pane.remove\<close> compares.
\<close>

datatype blade =
    Button (ref: nat) (title: jsstring) (label: "jsstring option") (disabled: bool)
      (listeners: "listener list")
  | ListBlade (ref: nat) (list_label: jsstring) (options: "(jsstring \<times> jsstring) list")
      (list_value: jsstring)

text \<open>
  The state the handlers share: the variables \<open>btnUrlDoc\<close> and \<open>sectionEnabled\<close>
  of \<open>main\<close>, the children of the control panel, the scene box of the renderer, the
  calls made so far, and the next unused object identity.
\<close>

record app_state =
  calls :: "call list"
  pane :: "blade list"
  btnUrlDoc :: "nat option"
  sectionEnabled :: bool
  sceneBox :: Box3
  next_ref :: nat

definition do_call :: "call \<Rightarrow> app_state \<Rightarrow> app_state" where
  "do_call c s = s\<lparr>calls := calls s @ [c]\<rparr>"

text \<open>\<open>pane.addButton(params)\<close>: a new button at the end of the panel; returns it.\<close>

definition addButton ::
  "jsstring \<Rightarrow> jsstring option \<Rightarrow> bool \<Rightarrow> app_state \<Rightarrow> nat \<times> app_state" where
  "addButton t l d s =
     (next_ref s,
      s\<lparr>pane := pane s @ [Button (next_ref s) t l d []], next_ref := Suc (next_ref s)\<rparr>)"

text \<open>\<open>pane.addBlade({view: 'list', ...})\<close>\<close>

definition addBlade ::
  "jsstring \<Rightarrow> (jsstring \<times> jsstring) list \<Rightarrow> jsstring \<Rightarrow> app_state \<Rightarrow> nat \<times> app_state" where
  "addBlade l opts v s =
     (next_ref s,
      s\<lparr>pane := pane s @ [ListBlade (next_ref s) l opts v], next_ref := Suc (next_ref s)\<rparr>)"

text \<open>\<open>button.on('click', f)\<close>: one more listener on that button.\<close>

fun add_listener :: "nat \<Rightarrow> listener \<Rightarrow> blade \<Rightarrow> blade" where
  "add_listener r f (Button r' t l d fs) = Button r' t l d (if r' = r then fs @ [f] else fs)"
| "add_listener r f (ListBlade r' l opts v) = ListBlade r' l opts v"

definition on_click :: "nat \<Rightarrow> listener \<Rightarrow> app_state \<Rightarrow> app_state" where
  "on_click r f s = s\<lparr>pane := map (add_listener r f) (pane s)\<rparr>"

text \<open>\<open>pane.remove(blade)\<close>: the blade leaves the panel; nothing happens if it is not there.\<close>

definition remove_blade :: "nat \<Rightarrow> app_state \<Rightarrow> app_state" where
  "remove_blade r s = s\<lparr>pane := filter (\<lambda>b. ref b \<noteq> r) (pane s)\<rparr>"

definition Ouvrir_URL :: jsstring where
  "Ouvrir_URL = str ''Ouvrir URL''"

definition Doc :: jsstring where
  "Doc = str ''Doc''"

text \<open>
  \<open>createOrUpdateButton(parameterUrl)\<close>, lines 166-190. The parameter is declared
  \<open>string | null\<close>; both callers pass a value read from the model's raw data, so it is
  any value here, and \<open>parameterUrl.trim()\<close> on a truthy value that is not a string is
  a TypeError (no value of deserialised JSON but a string has a method \<open>trim\<close>).
  \<open>remove_old\<close> is the \<open>if\<close> of lines 168-170.
\<close>

definition remove_old :: "app_state \<Rightarrow> app_state" where
  "remove_old s = (case btnUrlDoc s of Some b \<Rightarrow> remove_blade b s | None \<Rightarrow> s)"

definition createOrUpdateButton :: "jsval \<Rightarrow> app_state \<Rightarrow> app_state \<times> js_error option" where
  "createOrUpdateButton parameterUrl s =
     (let s1 = remove_old s in
      if truthy parameterUrl then
        (case parameterUrl of
           JStr u \<Rightarrow>
             if trim u \<noteq> [] then
               (let (b, s2) = addButton Ouvrir_URL (Some Doc) False s1;
                    s3 = on_click b (OpenUrl u) s2
                in (s3\<lparr>btnUrlDoc := Some b\<rparr>, None))
             else
               (let (b, s2) = addButton Ouvrir_URL (Some Doc) True s1
                in (s2\<lparr>btnUrlDoc := Some b\<rparr>, None))
         | _ \<Rightarrow> (s1, Some TypeError))
      else
        (let (b, s2) = addButton Ouvrir_URL (Some Doc) True s1
         in (s2\<lparr>btnUrlDoc := Some b\<rparr>, None)))"

text \<open>The key \<open>Donn\<close>, e acute, \<open>es utilisateur\<close> of the user data.\<close>

definition Donnees_utilisateur :: jsstring where
  "Donnees_utilisateur = str ''Donn'' @ [0xE9] @ str ''es utilisateur''"

text \<open>
  Lines 239-241 and again lines 254-256:
  \<open>properties = model.raw?.properties\<close>,
  \<open>userData = properties?.[key] || {}\<close>,
  \<open>parameterUrl = userData.URL_DOC || null\<close>.
  The object literal is a new object; its identity is never compared.
\<close>

definition parameterUrl_of :: "NodeData \<Rightarrow> js_error + jsval" where
  "parameterUrl_of m =
     (let properties = opt_member (raw m) (str ''properties'');
          userData = js_or (opt_member properties Donnees_utilisateur) (JObj 0 [])
      in case member userData (str ''URL_DOC'') of
           Inl e \<Rightarrow> Inl e
         | Inr url \<Rightarrow> Inr (js_or url JNull))"

text \<open>\<open>ZoomOnTreeNode\<close>, lines 233-245.\<close>

definition ZoomOnTreeNode :: "TreeNode \<Rightarrow> app_state \<Rightarrow> app_state \<times> js_error option" where
  "ZoomOnTreeNode targetTreeNode s =
     (let s1 = do_call ClearSelection s;
          ids = [model_id (model targetTreeNode)];
          s2 = do_call (SetCameraView ids True) s1
      in case parameterUrl_of (model targetTreeNode) of
           Inl e \<Rightarrow> (s2, Some e)
         | Inr parameterUrl \<Rightarrow> createOrUpdateButton parameterUrl s2)"

definition id_echappement :: jsstring where
  "id_echappement = str ''43f5ec360a6eb64885aef52d54281f2f''"

definition id_catalyseur :: jsstring where
  "id_catalyseur = str ''7d99a80b449d360e6380c0108737ae1a''"

text \<open>
  The message of line 228, for the value \<open>v\<close> of the drop-down (a string: the list
  blade reports the value of one of its options).
\<close>

definition not_found_message :: "jsstring \<Rightarrow> jsstring" where
  "not_found_message v =
     str ''Impossible de trouver le node pour l'' @ [0x27, 0xE9] @ str ''l'' @ [0xE9]
       @ str ''ment '' @ v"

text \<open>
  The change handler of the drop-down, lines 204-230: the \<open>switch\<close> sets \<open>tnFinded\<close>
  (\<open>null\<close> unless a look-up finds a node), then the \<open>if\<close> of line 225 runs.
\<close>

definition dropdown_switch ::
  "(jsval \<rightharpoonup> TreeNode) \<Rightarrow> jsstring \<Rightarrow> app_state \<Rightarrow> TreeNode option \<times> app_state \<times> js_error option" where
  "dropdown_switch tnMap v s =
     (if v = str ''all'' then
        (let s1 = do_call ClearSelection s;
             s2 = do_call (SetCameraView [] False) s1;
             (s3, e) = createOrUpdateButton JNull s2
         in (None, s3, e))
      else if v = str ''echappement'' then (tnMap (JStr id_echappement), s, None)
      else if v = str ''catalyseur'' then (tnMap (JStr id_catalyseur), s, None)
      else (None, s, None))"

definition dropdown_change ::
  "(jsval \<rightharpoonup> TreeNode) \<Rightarrow> jsstring \<Rightarrow> app_state \<Rightarrow> app_state \<times> js_error option" where
  "dropdown_change tnMap v s =
     (case dropdown_switch tnMap v s of
        (tnFinded, s1, Some e) \<Rightarrow> (s1, Some e)
      | (Some tn, s1, None) \<Rightarrow> ZoomOnTreeNode tn s1
      | (None, s1, None) \<Rightarrow> (do_call (ConsoleLog (not_found_message v)) s1, None))"

text \<open>
  A \<open>SelectionEvent\<close>: \<open>hits\<close> is \<open>None\<close> when the field is missing or \<open>null\<close>,
  otherwise the array of hits, each with its node.
\<close>

datatype hit = Hit (node: TreeNode)

datatype SelectionEvent = SelectionEvent (hits: "hit list option")

text \<open>
  The \<open>ObjectClicked\<close> handler, lines 248-261. The event is \<open>None\<close> for \<open>null\<close>;
  \<open>hits[0].node\<close> on an empty array is a TypeError.
\<close>

definition objectClicked :: "SelectionEvent option \<Rightarrow> app_state \<Rightarrow> app_state \<times> js_error option" where
  "objectClicked selectionEvent s =
     (case selectionEvent of
        None \<Rightarrow> (s, None)
      | Some ev \<Rightarrow>
          (case hits ev of
             None \<Rightarrow> (s, None)
           | Some [] \<Rightarrow> (s, Some TypeError)
           | Some (h # hs) \<Rightarrow>
               (case parameterUrl_of (model (node h)) of
                  Inl e \<Rightarrow> (s, Some e)
                | Inr parameterUrl \<Rightarrow> createOrUpdateButton parameterUrl s)))"

text \<open>The click listeners of the two section buttons, lines 150-161.\<close>

definition toggle_section_boxes :: "app_state \<Rightarrow> app_state" where
  "toggle_section_boxes s =
     (let s1 = s\<lparr>sectionEnabled := \<not> sectionEnabled s\<rparr>
      in do_call (SectionsSetEnabled (sectionEnabled s1)) s1)"

definition reset_section_boxes :: "app_state \<Rightarrow> app_state" where
  "reset_section_boxes s = do_call (SectionsSetBox (section_box (sceneBox s))) s"

text \<open>
  Running a click listener. The listener of line 180 calls
  \<open>window.open(parameterUrl, '_blank')\<close>.
\<close>

fun run_listener :: "listener \<Rightarrow> app_state \<Rightarrow> app_state" where
  "run_listener ToggleSectionBoxes s = toggle_section_boxes s"
| "run_listener ResetSectionBoxes s = reset_section_boxes s"
| "run_listener (OpenUrl u) s = do_call (WindowOpen u (str ''_blank'')) s"

text \<open>A click on the button \<open>r\<close> of the panel: a disabled button emits nothing.\<close>

definition button_click :: "nat \<Rightarrow> app_state \<Rightarrow> app_state" where
  "button_click r s =
     (case filter (\<lambda>b. ref b = r) (pane s) of
        Button r' t l d fs # bs \<Rightarrow> if d then s else fold run_listener fs s
      | _ \<Rightarrow> s)"

text \<open>
  The panel as lines 107-230 build it, before any event: the section tool toggled and
  given its box, the two section buttons, the drop-down, and no documentation button.
\<close>

definition control_panel :: "Box3 \<Rightarrow> app_state" where
  "control_panel sb =
     (let s0 = \<lparr>calls = [SectionsToggle, SectionsSetBox (section_box sb)], pane = [],
                btnUrlDoc = None, sectionEnabled = True, sceneBox = sb, next_ref = 0\<rparr>;
          (b1, s1) = addButton (str ''Toggle Section Boxes'') None False s0;
          s2 = on_click b1 ToggleSectionBoxes s1;
          (b2, s3) = addButton (str ''Reset Section Boxes'') None False s2;
          s4 = on_click b2 ResetSectionBoxes s3;
          (b3, s5) = addBlade ([0xC9] @ str ''l'' @ [0xE9] @ str ''ments'')
                       [(str ''Catalyseur'', str ''catalyseur''),
                        ([0xC9] @ str ''chappement'', str ''echappement''),
                        (str ''All'', str ''all'')]
                       (str ''all'') s4
      in s5)"

text \<open>
  The events after start-up, and a run of the program over a list of them. An exception
  a handler does not catch ends that handler only: the state it left stays.
\<close>

datatype event =
    DropdownChange jsstring
  | ObjectClicked "SelectionEvent option"
  | ButtonClick nat

fun handle :: "(jsval \<rightharpoonup> TreeNode) \<Rightarrow> event \<Rightarrow> app_state \<Rightarrow> app_state" where
  "handle tnMap (DropdownChange v) s = fst (dropdown_change tnMap v s)"
| "handle tnMap (ObjectClicked ev) s = fst (objectClicked ev s)"
| "handle tnMap (ButtonClick r) s = button_click r s"

definition run :: "(jsval \<rightharpoonup> TreeNode) \<Rightarrow> event list \<Rightarrow> app_state \<Rightarrow> app_state" where
  "run tnMap evs s = fold (handle tnMap) evs s"

text \<open>The documentation buttons of the panel: the buttons \<open>createOrUpdateButton\<close> adds.\<close>

fun is_doc_button :: "blade \<Rightarrow> bool" where
  "is_doc_button (Button r t l d fs) = (t = Ouvrir_URL \<and> l = Some Doc)"
| "is_doc_button (ListBlade r l opts v) = False"

definition doc_buttons :: "app_state \<Rightarrow> blade list" where
  "doc_buttons s = filter is_doc_button (pane s)"

section \<open>The measurements panel (MeasurementsUI.ts)\<close>

datatype MeasurementType = PERPENDICULAR | POINTTOPOINT

text \<open>The shape of \<open>measurementsParams\<close>, lines 9-16, and its initial value.\<close>

record MeasurementOptions =
  type :: MeasurementType
  vertexSnap :: bool
  units :: jsstring
  precision :: jsnum
  visible :: bool
  enabled :: bool

definition measurementsParams :: MeasurementOptions where
  "measurementsParams =
     \<lparr>type = POINTTOPOINT, vertexSnap = True, units = str ''m'', precision = Finite 2,
      visible = True, enabled = False\<rparr>"

text \<open>
  The state of the panel: the object \<open>measurementsParams\<close> the inputs are bound to, and
  the two properties of the measurements extension the handlers assign.
\<close>

record measurements_state =
  params :: MeasurementOptions
  extension_enabled :: bool
  extension_options :: MeasurementOptions

text \<open>
  A change of one input of the panel, with the value the input commits. Tweakpane
  writes that value to the bound field of \<open>measurementsParams\<close>, then emits
  \<open>change\<close>.
\<close>

datatype input_change =
    Enabled bool
  | Visible bool
  | Type MeasurementType
  | VertexSnap bool
  | Units jsstring
  | Precision jsnum

fun write_binding :: "input_change \<Rightarrow> MeasurementOptions \<Rightarrow> MeasurementOptions" where
  "write_binding (Enabled v) p = p\<lparr>enabled := v\<rparr>"
| "write_binding (Visible v) p = p\<lparr>visible := v\<rparr>"
| "write_binding (Type v) p = p\<lparr>type := v\<rparr>"
| "write_binding (VertexSnap v) p = p\<lparr>vertexSnap := v\<rparr>"
| "write_binding (Units v) p = p\<lparr>units := v\<rparr>"
| "write_binding (Precision v) p = p\<lparr>precision := v\<rparr>"

text \<open>The six \<open>change\<close> listeners of \<open>makeMeasurementsUI\<close>, lines 23-73, in their order.\<close>

fun on_change :: "input_change \<Rightarrow> measurements_state \<Rightarrow> measurements_state" where
  "on_change (Enabled v) st = st\<lparr>extension_enabled := enabled (params st)\<rparr>"
| "on_change (Visible v) st = st\<lparr>extension_options := params st\<rparr>"
| "on_change (Type v) st = st\<lparr>extension_options := params st\<rparr>"
| "on_change (VertexSnap v) st = st\<lparr>extension_options := params st\<rparr>"
| "on_change (Units v) st = st\<lparr>extension_options := params st\<rparr>"
| "on_change (Precision v) st = st\<lparr>extension_options := params st\<rparr>"

definition input_changed :: "input_change \<Rightarrow> measurements_state \<Rightarrow> measurements_state" where
  "input_changed c st = on_change c (st\<lparr>params := write_binding c (params st)\<rparr>)"

text \<open>The property of the extension that mirrors the changed field, as a value.\<close>

fun extension_property :: "input_change \<Rightarrow> measurements_state \<Rightarrow> input_change" where
  "extension_property (Enabled v) st = Enabled (extension_enabled st)"
| "extension_property (Visible v) st = Visible (visible (extension_options st))"
| "extension_property (Type v) st = Type (type (extension_options st))"
| "extension_property (VertexSnap v) st = VertexSnap (vertexSnap (extension_options st))"
| "extension_property (Units v) st = Units (units (extension_options st))"
| "extension_property (Precision v) st = Precision (precision (extension_options st))"

section \<open>The start-up sequence (main.ts, lines 25-84)\<close>

text \<open>A promise is pending, fulfilled with a value, or rejected with a reason.\<close>

datatype 'a promise = Pending | Fulfilled 'a | Rejected js_error

text \<open>
  What \<open>main\<close> does not decide: which elements the document has, whether the two
  library calls that receive an element throw, and how the three kinds of promise it
  awaits settle.
\<close>

record world =
  getElementById :: "jsstring \<Rightarrow> nat option"
  spin :: "nat option \<Rightarrow> js_error option"
  new_Viewer :: "nat option \<Rightarrow> js_error option"
  init :: "unit promise"
  getResourceUrls :: "jsstring list promise"
  loadObject :: "jsstring \<Rightarrow> unit promise"

datatype step = ViewerInit | GetResourceUrls | LoadObject jsstring

text \<open>
  What \<open>main\<close> does, in order: the synchronous calls, and for each asynchronous step
  the call that starts it and the resumption of \<open>main\<close> when its promise has settled.
\<close>

datatype action =
    Spin "nat option"
  | NewViewer "nat option"
  | Begin step
  | Settled step
  | CreateExtension jsstring
  | NewSpeckleLoader jsstring
  | SpinnerStop
  | Hide nat

text \<open>How a run of \<open>main\<close> ends: it returns, an exception leaves it, or it waits for ever.\<close>

datatype ending = Returned | Uncaught js_error | Waiting

type_synonym execution = "action list \<times> ending"

text \<open>\<open>await\<close> on a step whose promise is \<open>p\<close>, then the rest \<open>k\<close> of the function.\<close>

definition await :: "step \<Rightarrow> 'a promise \<Rightarrow> ('a \<Rightarrow> execution) \<Rightarrow> execution" where
  "await st p k =
     (case p of
        Pending \<Rightarrow> ([Begin st], Waiting)
      | Rejected e \<Rightarrow> ([Begin st, Settled st], Uncaught e)
      | Fulfilled v \<Rightarrow> (Begin st # Settled st # fst (k v), snd (k v)))"

text \<open>Synchronous calls that do not throw, then the rest.\<close>

definition sync :: "action list \<Rightarrow> execution \<Rightarrow> execution" where
  "sync as r = (as @ fst r, snd r)"

text \<open>The loop of lines 74-78, then the rest \<open>k\<close> of \<open>main\<close>.\<close>

fun load_all :: "world \<Rightarrow> jsstring list \<Rightarrow> execution \<Rightarrow> execution" where
  "load_all w [] k = k"
| "load_all w (url # urls) k =
     sync [NewSpeckleLoader url]
       (case loadObject w url of
          Pending \<Rightarrow> ([Begin (LoadObject url)], Waiting)
        | Rejected e \<Rightarrow> ([Begin (LoadObject url), Settled (LoadObject url)], Uncaught e)
        | Fulfilled v \<Rightarrow>
            sync [Begin (LoadObject url), Settled (LoadObject url)] (load_all w urls k))"

text \<open>Lines 80-84: the spinner stops, and the loading element is hidden if there is one.\<close>

definition hide_loading :: "world \<Rightarrow> execution" where
  "hide_loading w =
     sync [SpinnerStop]
       (case getElementById w (str ''loading-spinner'') of
          Some loadingDiv \<Rightarrow> ([Hide loadingDiv], Returned)
        | None \<Rightarrow> ([], Returned))"

definition extensions :: "action list" where
  "extensions =
     map CreateExtension
       [str ''CameraController'', str ''MeasurementsExtension'', str ''SelectionExtension'',
        str ''SectionTool'', str ''SectionOutlines'']"

text \<open>
  Lines 58-78, then lines 80-84: the viewer is initialised, the extensions are created,
  the resource URLs are resolved, and the objects are loaded.
\<close>

definition load_model :: "world \<Rightarrow> execution" where
  "load_model w =
     await ViewerInit (init w)
       (\<lambda>u. sync extensions
          (await GetResourceUrls (getResourceUrls w)
             (\<lambda>urls. load_all w urls (hide_loading w))))"

text \<open>\<open>main\<close>, lines 25-84.\<close>

definition main :: "world \<Rightarrow> execution" where
  "main w =
     (let spinnerTarget = getElementById w (str ''spinner'') in
      case spin w spinnerTarget of
        Some e \<Rightarrow> ([Spin spinnerTarget], Uncaught e)
      | None \<Rightarrow>
          sync [Spin spinnerTarget]
            (let container = getElementById w (str ''renderer'') in
             case new_Viewer w container of
               Some e \<Rightarrow> ([NewViewer container], Uncaught e)
             | None \<Rightarrow> sync [NewViewer container] (load_model w)))"

text \<open>The asynchronous steps \<open>main\<close> started, in order.\<close>

fun begun :: "action list \<Rightarrow> step list" where
  "begun [] = []"
| "begun (Begin st # as) = st # begun as"
| "begun (a # as) = begun as"

text \<open>
  No overlap: whenever a step starts, no step is in flight, and \<open>main\<close> resumes
  only from the step in flight. \<open>fl\<close> are the steps in flight before the trace.
\<close>

fun sequential :: "step list \<Rightarrow> action list \<Rightarrow> bool" where
  "sequential fl [] = True"
| "sequential fl (Begin st # as) = (fl = [] \<and> sequential [st] as)"
| "sequential fl (Settled st # as) = (fl = [st] \<and> sequential [] as)"
| "sequential fl (a # as) = sequential fl as"

section \<open>The id-to-node map: what the scan finds\<close>



text \<open>
  A node carries the id \<open>k\<close>: its \<open>node.model.raw.properties\<close> is truthy and the
  \<open>id\<close> found there is the truthy value \<open>k\<close>.
\<close>

definition carries_id :: "TreeNode \<Rightarrow> jsval \<Rightarrow> bool" where
  "carries_id n k =
     (case raw_properties n of
        Inl e \<Rightarrow> False
      | Inr props \<Rightarrow> truthy props \<and> truthy k \<and> get_prop props (str ''id'') = k)"

section \<open>The documentation button: what the handlers are to do\<close>

text \<open>
  The \<open>URL_DOC\<close> of a node: the property \<open>URL_DOC\<close> of the user-data object in the
  node's raw properties, \<open>undefined\<close> when any of the three is missing.
\<close>

definition URL_DOC_of :: "NodeData \<Rightarrow> jsval" where
  "URL_DOC_of m =
     get_prop (get_prop (get_prop (raw m) (str ''properties'')) Donnees_utilisateur)
       (str ''URL_DOC'')"

text \<open>
  The documentation button is created again, disabled or not, with the given click
  listeners: the button \<open>btnUrlDoc\<close> refers to leaves the panel, a new button enters
  it, and \<open>btnUrlDoc\<close> refers to the new one.
\<close>

definition recreated :: "app_state \<Rightarrow> bool \<Rightarrow> listener list \<Rightarrow> app_state" where
  "recreated s d fs =
     (remove_old s)
       \<lparr>pane := pane (remove_old s) @ [Button (next_ref s) Ouvrir_URL (Some Doc) d fs],
        btnUrlDoc := Some (next_ref s),
        next_ref := Suc (next_ref s)\<rparr>"

text \<open>
  What holds of the panel in every state the program reaches: identities not yet given
  out are not in use, and the panel has no documentation button, or exactly one, which
  is the one \<open>btnUrlDoc\<close> refers to.
\<close>

definition well_formed :: "app_state \<Rightarrow> bool" where
  "well_formed s =
     (list_all (\<lambda>b. ref b < next_ref s) (pane s)
      \<and> (case btnUrlDoc s of None \<Rightarrow> True | Some r \<Rightarrow> r < next_ref s)
      \<and> (case doc_buttons s of
            [] \<Rightarrow> True
          | [b] \<Rightarrow> btnUrlDoc s = Some (ref b)
          | _ \<Rightarrow> False))"

text \<open>\<open>btnUrlDoc\<close> refers to the single documentation button present in the panel.\<close>

definition refers_to_present :: "app_state \<Rightarrow> bool" where
  "refers_to_present s =
     (case btnUrlDoc s of
        None \<Rightarrow> False
      | Some r \<Rightarrow> map ref (doc_buttons s) = [r])"

section \<open>The start-up sequence: steps that never settle\<close>

fun pending :: "world \<Rightarrow> step \<Rightarrow> bool" where
  "pending w ViewerInit = (init w = Pending)"
| "pending w GetResourceUrls = (getResourceUrls w = Pending)"
| "pending w (LoadObject url) = (loadObject w url = Pending)"

text \<open>The steps of a start-up in which nothing fails, for the resolved URLs.\<close>

definition all_steps :: "jsstring list \<Rightarrow> step list" where
  "all_steps urls = ViewerInit # GetResourceUrls # map LoadObject urls"

section \<open>A small model, for concrete runs\<close>

definition doc_url :: jsstring where
  "doc_url = str ''https://example.org/doc.pdf''"

definition echappement_node :: TreeNode where
  "echappement_node =
     TreeNode
       (NodeData (str ''n1'')
          (JObj 1
             [(str ''properties'',
               JObj 2
                 [(str ''id'', JStr id_echappement),
                  (Donnees_utilisateur, JObj 3 [(str ''URL_DOC'', JStr doc_url)])])]))
       []"

definition echappement_copy :: TreeNode where
  "echappement_copy =
     TreeNode
       (NodeData (str ''n2'')
          (JObj 4 [(str ''properties'', JObj 5 [(str ''id'', JStr id_echappement)])]))
       []"

definition numbered_node :: TreeNode where
  "numbered_node =
     TreeNode
       (NodeData (str ''n3'')
          (JObj 6
             [(str ''properties'',
               JObj 7 [(Donnees_utilisateur, JObj 8 [(str ''URL_DOC'', JNum (Finite 42))])])]))
       []"

definition example_tree :: TreeNode where
  "example_tree =
     TreeNode (NodeData (str ''root'') (JObj 0 []))
       [echappement_node, echappement_copy, numbered_node]"

definition example_map :: "jsval \<rightharpoonup> TreeNode" where
  "example_map = [JStr id_echappement \<mapsto> echappement_copy]"

definition unit_box :: Box3 where
  "unit_box =
     \<lparr>min_x = Finite 0, min_y = Finite 0, min_z = Finite 0,
      max_x = Finite 1, max_y = Finite 1, max_z = Finite 1\<rparr>"

definition click_on :: "TreeNode \<Rightarrow> SelectionEvent option" where
  "click_on n = Some (SelectionEvent (Some [Hit n]))"

definition example_world :: world where
  "example_world =
     \<lparr>getElementById =
        (\<lambda>i. if i = str ''spinner'' then Some 0 else if i = str ''renderer'' then Some 1
              else None),
      spin = (\<lambda>target. None),
      new_Viewer = (\<lambda>container. case container of None \<Rightarrow> Some TypeError | Some c \<Rightarrow> None),
      init = Fulfilled (),
      getResourceUrls = Fulfilled [str ''u1'', str ''u2''],
      loadObject = (\<lambda>url. Fulfilled ())\<rparr>"

definition world_without_renderer :: world where
  "world_without_renderer =
     example_world\<lparr>getElementById := (\<lambda>i. if i = str ''spinner'' then Some 0 else None)\<rparr>"

text \<open>
  The panel after a click on the documented node, and that click followed by a click on
  the node whose \<open>URL_DOC\<close> is a number.
\<close>

definition documented_panel :: app_state where
  "documented_panel = fst (objectClicked (click_on echappement_node) (control_panel unit_box))"

definition two_clicks :: "event list" where
  "two_clicks = [ObjectClicked (click_on echappement_node), ObjectClicked (click_on numbered_node)]"

definition stalled_world :: world where
  "stalled_world =
     example_world\<lparr>loadObject := (\<lambda>url. if url = str ''u2'' then Pending else Fulfilled ())\<rparr>"

text \<open>
  A document without the \<open>spinner\<close> element. As in \<open>example_world\<close>, \<open>spin\<close> returns
  normally whatever its target: the spinner of spin.js inserts its element into the target
  only if there is one.
\<close>

definition world_without_spinner :: world where
  "world_without_spinner =
     example_world\<lparr>getElementById := (\<lambda>i. if i = str ''renderer'' then Some 1 else None)\<rparr>"



section \<open>Properties of the id-to-node map\<close>

lemma truthy_not_nullish: "truthy v \<Longrightarrow> \<not> nullish v"
  by (cases v) auto

lemma has_id_truthy:
  "(\<exists>v. has_id n = Inr v \<and> truthy v) \<longleftrightarrow> (\<exists>k. carries_id n k)"
  by (auto simp: has_id_def carries_id_def raw_properties_id_def member_def truthy_not_nullish
      split: sum.splits if_splits)

lemma carries_id_key: "carries_id n k \<Longrightarrow> raw_properties_id n = Inr k"
  by (auto simp: carries_id_def raw_properties_id_def member_def truthy_not_nullish
      split: sum.splits)

lemma collect_filter:
  "collect p ns = Inr found \<Longrightarrow> found = filter (\<lambda>n. \<exists>v. p n = Inr v \<and> truthy v) ns"
  by (induction ns arbitrary: found) (auto split: sum.splits if_splits)

lemma tn_GenericModels_filter:
  assumes "tn_GenericModels tree = Inr nodes"
  shows "nodes = filter (\<lambda>n. \<exists>k. carries_id n k) (walk tree)"
  using collect_filter [of has_id "walk tree" nodes] assms
  by (simp add: tn_GenericModels_def findAll_def has_id_truthy)










lemma collect_total:
  "(\<forall>n \<in> set ns. \<exists>v. p n = Inr v) \<Longrightarrow> \<exists>found. collect p ns = Inr found"
  by (induction ns) (auto split: sum.splits)

lemma has_id_total: "\<not> nullish (raw (model n)) \<Longrightarrow> \<exists>v. has_id n = Inr v"
  by (auto simp: has_id_def raw_properties_def raw_properties_id_def member_def truthy_not_nullish)

lemma fill_total:
  "(\<forall>n \<in> set ns. \<exists>k. raw_properties_id n = Inr k) \<Longrightarrow> \<exists>m'. fill m ns = Inr m'"
  by (induction ns arbitrary: m) (auto split: sum.splits)

lemma treeNodeMap_total:
  assumes "\<forall>n \<in> set (walk tree). \<not> nullish (raw (model n))"
  shows "\<exists>m. treeNodeMap tree = Inr m"
proof -
  obtain nodes where nodes: "tn_GenericModels tree = Inr nodes"
    using collect_total [of "walk tree" has_id] has_id_total assms
    by (auto simp: tn_GenericModels_def findAll_def)
  have "\<forall>n \<in> set nodes. \<exists>k. raw_properties_id n = Inr k"
    using tn_GenericModels_filter [OF nodes] carries_id_key by auto
  then show ?thesis
    using fill_total [of nodes Map.empty] nodes by (simp add: treeNodeMap_def)
qed

section \<open>Properties of the control panel handlers\<close>

lemma get_prop_nullish: "nullish v \<Longrightarrow> get_prop v k = JUndefined"
  by (cases v) auto

lemma get_prop_falsy: "\<not> truthy v \<Longrightarrow> get_prop v k = JUndefined"
  by (cases v) auto

lemma parameterUrl_of_eq: "parameterUrl_of m = Inr (js_or (URL_DOC_of m) JNull)"
proof -
  let ?p = "get_prop (raw m) (str ''properties'')"
  let ?ud = "get_prop ?p Donnees_utilisateur"
  have p: "opt_member (raw m) (str ''properties'') = ?p"
    by (simp add: opt_member_def get_prop_nullish)
  have u: "opt_member ?p Donnees_utilisateur = ?ud"
    by (simp add: opt_member_def get_prop_nullish)
  show ?thesis
  proof (cases "truthy ?ud")
    case True
    then show ?thesis
      by (simp add: parameterUrl_of_def p u URL_DOC_of_def js_or_def member_def
          truthy_not_nullish)
  next
    case False
    then show ?thesis
      by (simp add: parameterUrl_of_def p u URL_DOC_of_def js_or_def member_def
          get_prop_falsy)
  qed
qed

lemma remove_old_fields [simp]:
  "calls (remove_old s) = calls s"
  "next_ref (remove_old s) = next_ref s"
  "sectionEnabled (remove_old s) = sectionEnabled s"
  "sceneBox (remove_old s) = sceneBox s"
  "btnUrlDoc (remove_old s) = btnUrlDoc s"
  by (simp_all add: remove_old_def remove_blade_def split: option.splits)

lemma remove_old_pane: "set (pane (remove_old s)) \<subseteq> set (pane s)"
  by (auto simp: remove_old_def remove_blade_def split: option.splits)

lemma add_listener_last:
  "\<forall>b \<in> set bs. ref b \<noteq> r \<Longrightarrow>
     map (add_listener r f) (bs @ [Button r t l d fs]) = bs @ [Button r t l d (fs @ [f])]"
proof (induction bs)
  case Nil
  then show ?case by simp
next
  case (Cons b bs)
  then show ?case by (cases b) auto
qed

lemma trim_nonempty: "trim u \<noteq> [] \<Longrightarrow> u \<noteq> []"
  by (auto simp: trim_def)

text \<open>What \<open>createOrUpdateButton\<close> does, case by case.\<close>

lemma createOrUpdateButton_enabled:
  assumes "list_all (\<lambda>b. ref b < next_ref s) (pane s)" and "trim u \<noteq> []"
  shows "createOrUpdateButton (JStr u) s = (recreated s False [OpenUrl u], None)"
proof -
  have "\<forall>b \<in> set (pane (remove_old s)). ref b < next_ref s"
    using assms(1) remove_old_pane [of s] unfolding list_all_iff by blast
  then have fresh: "\<forall>b \<in> set (pane (remove_old s)). ref b \<noteq> next_ref s"
    by auto
  show ?thesis
    using assms(2) trim_nonempty [OF assms(2)] add_listener_last [OF fresh]
    by (simp add: createOrUpdateButton_def recreated_def addButton_def on_click_def Let_def)
qed

lemma createOrUpdateButton_disabled:
  assumes "\<not> truthy p \<or> (\<exists>u. p = JStr u \<and> trim u = [])"
  shows "createOrUpdateButton p s = (recreated s True [], None)"
  using assms
  by (auto simp: createOrUpdateButton_def recreated_def addButton_def Let_def)

lemma createOrUpdateButton_throws:
  assumes "truthy p" and "\<forall>u. p \<noteq> JStr u"
  shows "createOrUpdateButton p s = (remove_old s, Some TypeError)"
  using assms by (cases p) (auto simp: createOrUpdateButton_def)

lemma createOrUpdateButton_cases:
  assumes "list_all (\<lambda>b. ref b < next_ref s) (pane s)"
  shows "(\<exists>d fs. createOrUpdateButton p s = (recreated s d fs, None))
       \<or> createOrUpdateButton p s = (remove_old s, Some TypeError)"
proof (cases "truthy p")
  case False
  then show ?thesis using createOrUpdateButton_disabled [of p s] by blast
next
  case True
  show ?thesis
  proof (cases "\<exists>u. p = JStr u")
    case False
    then show ?thesis using createOrUpdateButton_throws [OF True, of s] by blast
  next
    case True
    then obtain u where u: "p = JStr u" by blast
    show ?thesis
    proof (cases "trim u = []")
      case True
      then show ?thesis using createOrUpdateButton_disabled [of p s] u by blast
    next
      case False
      then show ?thesis using createOrUpdateButton_enabled [OF assms False] u by blast
    qed
  qed
qed

lemma recreated_calls [simp]: "calls (recreated s d fs) = calls s"
  by (simp add: recreated_def)

lemma createOrUpdateButton_calls: "calls (fst (createOrUpdateButton p s)) = calls s"
  by (auto simp: createOrUpdateButton_def addButton_def on_click_def Let_def split: jsval.splits)

text \<open>Every handler keeps the panel well formed.\<close>

lemma is_doc_button_new [simp]: "is_doc_button (Button r Ouvrir_URL (Some Doc) d fs)"
  by simp

lemma doc_buttons_remove_old:
  assumes "well_formed s"
  shows "doc_buttons (remove_old s) = []"
proof (cases "btnUrlDoc s")
  case None
  then show ?thesis
    using assms by (auto simp: well_formed_def remove_old_def split: list.splits)
next
  case (Some r)
  have "doc_buttons (remove_old s) = filter (\<lambda>b. ref b \<noteq> r) (doc_buttons s)"
    using Some by (auto simp: remove_old_def remove_blade_def doc_buttons_def conj_commute)
  then show ?thesis
    using assms Some by (auto simp: well_formed_def split: list.splits)
qed

lemma fresh_remove_old:
  "list_all (\<lambda>b. ref b < next_ref s) (pane s) \<Longrightarrow>
   list_all (\<lambda>b. ref b < n) (pane (remove_old s)) \<or> \<not> next_ref s \<le> n"
  using remove_old_pane [of s] by (fastforce simp: list_all_iff)

lemma well_formed_remove_old:
  assumes "well_formed s"
  shows "well_formed (remove_old s)"
proof -
  have "list_all (\<lambda>b. ref b < next_ref s) (pane (remove_old s))"
    using assms remove_old_pane [of s] unfolding well_formed_def list_all_iff by blast
  then show ?thesis
    using doc_buttons_remove_old [OF assms] assms
    by (simp add: well_formed_def cong: option.case_cong)
qed

lemma doc_buttons_recreated:
  assumes "well_formed s"
  shows "doc_buttons (recreated s d fs) = [Button (next_ref s) Ouvrir_URL (Some Doc) d fs]"
  using doc_buttons_remove_old [OF assms]
  by (simp add: recreated_def doc_buttons_def)

lemma well_formed_recreated:
  assumes "well_formed s"
  shows "well_formed (recreated s d fs)"
proof -
  have "list_all (\<lambda>b. ref b < next_ref s) (pane (remove_old s))"
    using assms remove_old_pane [of s] unfolding well_formed_def list_all_iff by blast
  then have "list_all (\<lambda>b. ref b < Suc (next_ref s)) (pane (recreated s d fs))"
    by (auto simp: recreated_def list_all_iff less_Suc_eq)
  then show ?thesis
    using doc_buttons_recreated [OF assms, of d fs]
    by (simp add: well_formed_def recreated_def)
qed

lemma well_formed_createOrUpdateButton:
  assumes "well_formed s"
  shows "well_formed (fst (createOrUpdateButton p s))"
proof -
  have "list_all (\<lambda>b. ref b < next_ref s) (pane s)"
    using assms by (simp add: well_formed_def)
  from createOrUpdateButton_cases [OF this, of p]
  show ?thesis
    using well_formed_recreated [OF assms] well_formed_remove_old [OF assms] by auto
qed

lemma well_formed_cong:
  "pane s' = pane s \<Longrightarrow> btnUrlDoc s' = btnUrlDoc s \<Longrightarrow> next_ref s' = next_ref s \<Longrightarrow>
   well_formed s' = well_formed s"
  by (simp add: well_formed_def doc_buttons_def cong: list.case_cong option.case_cong)

lemma well_formed_do_call: "well_formed (do_call c s) = well_formed s"
  by (rule well_formed_cong) (simp_all add: do_call_def)

lemma well_formed_ZoomOnTreeNode:
  "well_formed s \<Longrightarrow> well_formed (fst (ZoomOnTreeNode tn s))"
  by (simp add: ZoomOnTreeNode_def parameterUrl_of_eq Let_def well_formed_createOrUpdateButton
      well_formed_do_call)

lemma well_formed_dropdown_change:
  assumes "well_formed s"
  shows "well_formed (fst (dropdown_change tnMap v s))"
proof -
  have all: "well_formed (fst (createOrUpdateButton JNull
               (do_call (SetCameraView [] False) (do_call ClearSelection s))))"
    using assms by (simp add: well_formed_createOrUpdateButton well_formed_do_call)
  show ?thesis
    using assms all well_formed_ZoomOnTreeNode [OF assms]
    by (auto simp: dropdown_change_def dropdown_switch_def Let_def well_formed_do_call
        split: prod.splits option.splits)
qed

lemma well_formed_objectClicked:
  "well_formed s \<Longrightarrow> well_formed (fst (objectClicked ev s))"
  by (auto simp: objectClicked_def parameterUrl_of_eq well_formed_createOrUpdateButton
      split: option.splits list.splits)

lemma well_formed_run_listener: "well_formed (run_listener f s) = well_formed s"
  by (rule well_formed_cong; cases f)
    (simp_all add: toggle_section_boxes_def reset_section_boxes_def do_call_def Let_def)

lemma well_formed_listeners: "well_formed (fold run_listener fs s) = well_formed s"
  by (induction fs arbitrary: s) (simp_all add: well_formed_run_listener)

lemma well_formed_button_click: "well_formed s \<Longrightarrow> well_formed (button_click r s)"
  by (auto simp: button_click_def well_formed_listeners split: list.splits blade.splits)

lemma well_formed_handle: "well_formed s \<Longrightarrow> well_formed (handle tnMap ev s)"
  by (cases ev)
    (simp_all add: well_formed_dropdown_change well_formed_objectClicked
      well_formed_button_click)

lemma well_formed_fold:
  "well_formed s \<Longrightarrow> well_formed (fold (handle tnMap) evs s)"
  by (induction evs arbitrary: s) (simp_all add: well_formed_handle)

lemma control_panel_doc_buttons: "doc_buttons (control_panel sb) = []"
  by (simp add: control_panel_def doc_buttons_def addButton_def addBlade_def on_click_def
      Ouvrir_URL_def str_def)

lemma well_formed_control_panel: "well_formed (control_panel sb)"
  using control_panel_doc_buttons [of sb]
  by (simp add: well_formed_def)
    (simp add: control_panel_def addButton_def addBlade_def on_click_def)

lemma well_formed_run: "well_formed (run tnMap evs (control_panel sb))"
  by (simp add: run_def well_formed_fold well_formed_control_panel)

text \<open>
  Claim C1. When the drop-down takes the value \<open>echappement\<close> or \<open>catalyseur\<close> and
  the id written in the source for that value is a key of the map, the change handler
  calls \<open>clearSelection()\<close> and then \<open>setCameraView\<close> with the list of the one model id
  of the mapped node and the flag \<open>true\<close>, and makes no other call on the extensions.
\<close>

theorem dropdown_known_value_zooms:
  assumes "v = str ''echappement'' \<and> k = id_echappement
         \<or> v = str ''catalyseur'' \<and> k = id_catalyseur"
    and "tnMap (JStr k) = Some tn"
  shows "calls (fst (dropdown_change tnMap v s))
         = calls s @ [ClearSelection, SetCameraView [model_id (model tn)] True]"
proof -
  have sw: "dropdown_switch tnMap v s = (Some tn, s, None)"
    using assms by (auto simp: dropdown_switch_def str_def)
  show ?thesis
    by (simp add: dropdown_change_def sw ZoomOnTreeNode_def parameterUrl_of_eq Let_def
        createOrUpdateButton_calls do_call_def)
qed

text \<open>
  Claim C5. When the look-up of the id for \<open>echappement\<close> or \<open>catalyseur\<close> finds no
  node, the change handler logs the message of line 228 and does nothing else: the panel,
  \<open>btnUrlDoc\<close>, the section flag and the calls made on the extensions stay as they
  were, and no exception is raised.
\<close>

theorem dropdown_failed_lookup_only_logs:
  assumes "v = str ''echappement'' \<and> k = id_echappement
         \<or> v = str ''catalyseur'' \<and> k = id_catalyseur"
    and "tnMap (JStr k) = None"
  shows "dropdown_change tnMap v s
         = (s\<lparr>calls := calls s @ [ConsoleLog (not_found_message v)]\<rparr>, None)"
proof -
  have sw: "dropdown_switch tnMap v s = (None, s, None)"
    using assms by (auto simp: dropdown_switch_def str_def)
  show ?thesis
    by (simp add: dropdown_change_def sw do_call_def)
qed

text \<open>
  Claim C10. When the selection event is \<open>null\<close>, or its \<open>hits\<close> field is missing or
  \<open>null\<close>, the \<open>ObjectClicked\<close> handler returns and leaves the state as it was.
\<close>

theorem objectClicked_without_hits_no_effect:
  assumes "selectionEvent = None \<or> (\<exists>ev. selectionEvent = Some ev \<and> hits ev = None)"
  shows "objectClicked selectionEvent s = (s, None)"
  using assms by (auto simp: objectClicked_def)

lemma click_recreated:
  assumes "list_all (\<lambda>b. ref b < next_ref s) (pane s)"
  shows "button_click (next_ref s) (recreated s False fs)
         = fold run_listener fs (recreated s False fs)"
proof -
  have "\<forall>b \<in> set (pane (remove_old s)). ref b < next_ref s"
    using assms remove_old_pane [of s] unfolding list_all_iff by blast
  then have "filter (\<lambda>b. ref b = next_ref s) (pane (remove_old s)) = []"
    by (auto simp: filter_empty_conv)
  then show ?thesis
    by (simp add: button_click_def recreated_def)
qed

text \<open>
  Claim C2, as amended. In every state the program reaches, for a click that hits a node:
  if the node's \<open>URL_DOC\<close> is a string that is not empty after trimming, the
  documentation button is created again enabled, and a click on it calls
  \<open>window.open\<close> with exactly that string; if the \<open>URL_DOC\<close> is missing or falsy, or
  is a string that is empty after trimming, the button is created again disabled. Nothing
  is said of a truthy \<open>URL_DOC\<close> that is not a string.
\<close>

theorem objectClicked_documentation_button:
  assumes "s = run tnMap evs (control_panel sb)" and "hits ev = Some (h # hs)"
  shows "(\<forall>u. URL_DOC_of (model (node h)) = JStr u \<and> trim u \<noteq> [] \<longrightarrow>
            objectClicked (Some ev) s = (recreated s False [OpenUrl u], None)
            \<and> calls (button_click (next_ref s) (recreated s False [OpenUrl u]))
                = calls s @ [WindowOpen u (str ''_blank'')])
       \<and> (\<not> truthy (URL_DOC_of (model (node h)))
            \<or> (\<exists>u. URL_DOC_of (model (node h)) = JStr u \<and> trim u = []) \<longrightarrow>
            objectClicked (Some ev) s = (recreated s True [], None))"
proof -
  let ?url = "URL_DOC_of (model (node h))"
  have fresh: "list_all (\<lambda>b. ref b < next_ref s) (pane s)"
    using well_formed_run [of tnMap evs sb] assms(1) by (simp add: well_formed_def)
  have click: "objectClicked (Some ev) s = createOrUpdateButton (js_or ?url JNull) s"
    using assms(2) by (simp add: objectClicked_def parameterUrl_of_eq)
  have enabled: "objectClicked (Some ev) s = (recreated s False [OpenUrl u], None)"
    if "?url = JStr u" and "trim u \<noteq> []" for u
    using that click createOrUpdateButton_enabled [OF fresh that(2)] trim_nonempty [OF that(2)]
    by (simp add: js_or_def)
  have opens: "calls (button_click (next_ref s) (recreated s False [OpenUrl u]))
                = calls s @ [WindowOpen u (str ''_blank'')]" for u
    by (simp add: click_recreated [OF fresh] do_call_def)
  have disabled: "objectClicked (Some ev) s = (recreated s True [], None)"
    if "\<not> truthy ?url \<or> (\<exists>u. ?url = JStr u \<and> trim u = [])"
  proof -
    have "\<not> truthy (js_or ?url JNull) \<or> (\<exists>u. js_or ?url JNull = JStr u \<and> trim u = [])"
      using that by (auto simp: js_or_def)
    then show ?thesis
      using click createOrUpdateButton_disabled by simp
  qed
  show ?thesis using enabled opens disabled by blast
qed

text \<open>
  Claim C9, as amended. In every state the program reaches, the panel has at most one
  documentation button. A call of \<open>createOrUpdateButton\<close> with a falsy value or a string
  returns normally; after it the button \<open>btnUrlDoc\<close> referred to before is no longer in
  the panel, a button that was not in the panel is its only documentation button, and
  \<open>btnUrlDoc\<close> refers to it. Before the first call \<open>btnUrlDoc\<close> is \<open>null\<close> and the panel has no
  documentation button.
\<close>

theorem documentation_button_invariant:
  assumes "s = run tnMap evs (control_panel sb)"
  shows "length (doc_buttons s) \<le> 1
       \<and> (\<not> truthy p \<or> (\<exists>u. p = JStr u) \<longrightarrow>
            snd (createOrUpdateButton p s) = None
            \<and> list_all (\<lambda>b. Some (ref b) \<noteq> btnUrlDoc s) (pane (fst (createOrUpdateButton p s)))
            \<and> list_all (\<lambda>b. ref b \<noteq> next_ref s) (pane s)
            \<and> map ref (doc_buttons (fst (createOrUpdateButton p s))) = [next_ref s]
            \<and> refers_to_present (fst (createOrUpdateButton p s)))
       \<and> btnUrlDoc (control_panel sb) = None
       \<and> doc_buttons (control_panel sb) = []"
proof -
  have wf: "well_formed s"
    using well_formed_run assms by simp
  then have fresh: "list_all (\<lambda>b. ref b < next_ref s) (pane s)"
    by (simp add: well_formed_def)
  have one: "length (doc_buttons s) \<le> 1"
    using wf by (auto simp: well_formed_def split: list.splits)
  have new: "list_all (\<lambda>b. ref b \<noteq> next_ref s) (pane s)"
    using fresh by (auto simp: list_all_iff)
  have old: "list_all (\<lambda>b. Some (ref b) \<noteq> btnUrlDoc s) (pane (recreated s d fs))" for d fs
  proof (cases "btnUrlDoc s")
    case None
    then show ?thesis by (simp add: list_all_iff)
  next
    case (Some r)
    then have "r < next_ref s"
      using wf by (simp add: well_formed_def)
    then show ?thesis
      using Some by (auto simp: recreated_def remove_old_def remove_blade_def list_all_iff)
  qed
  have present: "refers_to_present (recreated s d fs)" for d fs
    using doc_buttons_recreated [OF wf, of d fs]
    by (simp add: refers_to_present_def) (simp add: recreated_def)
  have call: "\<exists>d fs. createOrUpdateButton p s = (recreated s d fs, None)"
    if "\<not> truthy p \<or> (\<exists>u. p = JStr u)"
  proof (cases "\<exists>u. p = JStr u \<and> trim u \<noteq> []")
    case True
    then show ?thesis using createOrUpdateButton_enabled [OF fresh] by blast
  next
    case False
    then have "\<not> truthy p \<or> (\<exists>u. p = JStr u \<and> trim u = [])"
      using that by blast
    then show ?thesis using createOrUpdateButton_disabled by blast
  qed
  have after: "snd (createOrUpdateButton p s) = None
      \<and> list_all (\<lambda>b. Some (ref b) \<noteq> btnUrlDoc s) (pane (fst (createOrUpdateButton p s)))
      \<and> map ref (doc_buttons (fst (createOrUpdateButton p s))) = [next_ref s]
      \<and> refers_to_present (fst (createOrUpdateButton p s))"
    if "\<not> truthy p \<or> (\<exists>u. p = JStr u)"
  proof -
    from call [OF that] obtain d fs
      where eq: "createOrUpdateButton p s = (recreated s d fs, None)" by blast
    show ?thesis
      using old [of d fs] present [of d fs] doc_buttons_recreated [OF wf, of d fs]
      by (simp add: eq)
  qed
  have init: "btnUrlDoc (control_panel sb) = None"
    by (simp add: control_panel_def addButton_def addBlade_def on_click_def)
  show ?thesis
    using one after new init control_panel_doc_buttons [of sb] by simp
qed

text \<open>
  Claim C4. After a change of any of the six inputs of the measurements panel, the
  property of the extension that mirrors the changed field has exactly the value the input
  committed: the \<open>enabled\<close> listener assigns \<open>measurementsParams.enabled\<close> to the
  extension's \<open>enabled\<close>, every other listener assigns the whole
  \<open>measurementsParams\<close> to the extension's \<open>options\<close>.
\<close>

theorem measurement_change_mirrored:
  "extension_property c (input_changed c st) = c
   \<and> (case c of
        Enabled v \<Rightarrow> extension_enabled (input_changed c st) = enabled (params (input_changed c st))
      | _ \<Rightarrow> extension_options (input_changed c st) = params (input_changed c st))"
  by (cases c) (simp_all add: input_changed_def)

section \<open>Properties of the start-up sequence\<close>

lemma begun_append: "begun (as @ bs) = begun as @ begun bs"
  by (induction as rule: begun.induct) simp_all

lemma hide_loading_begun: "begun (fst (hide_loading w)) = []"
  by (simp add: hide_loading_def sync_def split: option.splits)

lemma hide_loading_ending: "snd (hide_loading w) = Returned"
  by (simp add: hide_loading_def sync_def split: option.splits)

lemma hide_loading_sequential: "sequential [] (fst (hide_loading w))"
  by (simp add: hide_loading_def sync_def split: option.splits)

lemma load_all_sequential: "sequential [] (fst (load_all w urls (hide_loading w)))"
  by (induction urls) (simp_all add: hide_loading_sequential sync_def split: promise.splits)

lemma load_all_begun:
  "prefix (begun (fst (load_all w urls (hide_loading w)))) (map LoadObject urls)"
  by (induction urls) (simp_all add: hide_loading_begun sync_def split: promise.splits)

lemma load_all_fulfilled:
  assumes "\<forall>url \<in> set urls. loadObject w url = Fulfilled ()"
  shows "begun (fst (load_all w urls (hide_loading w))) = map LoadObject urls
       \<and> snd (load_all w urls (hide_loading w)) = Returned"
  using assms
  by (induction urls) (simp_all add: hide_loading_begun hide_loading_ending sync_def)

lemma load_all_pending:
  assumes "st \<in> set (begun (fst (load_all w urls (hide_loading w))))" and "pending w st"
  shows "snd (load_all w urls (hide_loading w)) = Waiting
       \<and> last (begun (fst (load_all w urls (hide_loading w)))) = st"
  using assms
proof (induction urls)
  case Nil
  then show ?case by (simp add: hide_loading_begun)
next
  case (Cons url urls)
  show ?case
  proof (cases "loadObject w url")
    case Pending
    then show ?thesis using Cons.prems by (simp add: sync_def)
  next
    case (Rejected e)
    then show ?thesis using Cons.prems by (simp add: sync_def)
  next
    case (Fulfilled v)
    then have "st \<in> set (begun (fst (load_all w urls (hide_loading w))))"
      using Cons.prems by (auto simp: sync_def)
    then show ?thesis
      using Cons.IH [OF _ Cons.prems(2)] Fulfilled by (auto simp: sync_def)
  qed
qed

lemma extensions_begun: "begun (extensions @ as) = begun as"
  by (simp add: extensions_def)

lemma extensions_sequential: "sequential fl (extensions @ as) = sequential fl as"
  by (simp add: extensions_def)

lemma load_model_sequential: "sequential [] (fst (load_model w))"
  by (simp add: load_model_def await_def sync_def extensions_sequential load_all_sequential
      split: promise.splits)

lemma load_model_begun:
  "prefix (begun (fst (load_model w)))
     (all_steps (case getResourceUrls w of Fulfilled urls \<Rightarrow> urls | _ \<Rightarrow> []))"
  by (simp add: load_model_def await_def sync_def extensions_begun load_all_begun all_steps_def
      split: promise.splits)

lemma load_model_fulfilled:
  assumes "init w = Fulfilled ()" and "getResourceUrls w = Fulfilled urls"
    and "\<forall>url \<in> set urls. loadObject w url = Fulfilled ()"
  shows "begun (fst (load_model w)) = all_steps urls \<and> snd (load_model w) = Returned"
  using assms load_all_fulfilled [OF assms(3)]
  by (simp add: load_model_def await_def sync_def extensions_begun all_steps_def)

lemma load_model_pending:
  assumes "st \<in> set (begun (fst (load_model w)))" and "pending w st"
  shows "snd (load_model w) = Waiting \<and> last (begun (fst (load_model w))) = st"
proof (cases "init w")
  case Pending
  then show ?thesis using assms by (simp add: load_model_def await_def)
next
  case (Rejected e)
  then show ?thesis using assms by (simp add: load_model_def await_def)
next
  case init: (Fulfilled v)
  show ?thesis
  proof (cases "getResourceUrls w")
    case Pending
    then show ?thesis
      using assms init by (auto simp: load_model_def await_def sync_def extensions_begun)
  next
    case (Rejected e)
    then show ?thesis
      using assms init by (auto simp: load_model_def await_def sync_def extensions_begun)
  next
    case (Fulfilled urls)
    then have "st \<in> set (begun (fst (load_all w urls (hide_loading w))))"
      using assms init by (auto simp: load_model_def await_def sync_def extensions_begun)
    then show ?thesis
      using load_all_pending [OF _ assms(2)] init Fulfilled
      by (auto simp: load_model_def await_def sync_def extensions_begun)
  qed
qed

lemma main_unfold:
  "main w =
     (case spin w (getElementById w (str ''spinner'')) of
        Some e \<Rightarrow> ([Spin (getElementById w (str ''spinner''))], Uncaught e)
      | None \<Rightarrow>
          (case new_Viewer w (getElementById w (str ''renderer'')) of
             Some e \<Rightarrow>
               ([Spin (getElementById w (str ''spinner'')),
                 NewViewer (getElementById w (str ''renderer''))], Uncaught e)
           | None \<Rightarrow>
               (Spin (getElementById w (str ''spinner''))
                  # NewViewer (getElementById w (str ''renderer'')) # fst (load_model w),
                snd (load_model w))))"
  by (simp add: main_def sync_def Let_def split: option.splits)

text \<open>
  Claim C6. In every run of \<open>main\<close> no two asynchronous steps overlap, and the steps
  start in the order: initialisation of the viewer, resolution of the resource URLs, then
  the loading of each resolved URL in the order of the list. When every step is fulfilled
  all of them run and \<open>main\<close> goes on to its end. A step whose promise never settles is
  the last one started and leaves \<open>main\<close> waiting for ever: nothing cancels it or times
  it out.
\<close>

theorem startup_steps_in_order:
  "sequential [] (fst (main w))
   \<and> prefix (begun (fst (main w)))
       (all_steps (case getResourceUrls w of Fulfilled urls \<Rightarrow> urls | _ \<Rightarrow> []))
   \<and> (spin w (getElementById w (str ''spinner'')) = None
        \<and> new_Viewer w (getElementById w (str ''renderer'')) = None
        \<and> init w = Fulfilled ()
        \<and> getResourceUrls w = Fulfilled urls
        \<and> (\<forall>url \<in> set urls. loadObject w url = Fulfilled ())
      \<longrightarrow> begun (fst (main w)) = all_steps urls \<and> snd (main w) = Returned)
   \<and> (\<forall>st \<in> set (begun (fst (main w))). pending w st
      \<longrightarrow> snd (main w) = Waiting \<and> last (begun (fst (main w))) = st)"
proof -
  have a: "sequential [] (fst (main w))"
    using load_model_sequential [of w] by (simp add: main_unfold split: option.splits)
  have b: "prefix (begun (fst (main w)))
       (all_steps (case getResourceUrls w of Fulfilled urls \<Rightarrow> urls | _ \<Rightarrow> []))"
    using load_model_begun [of w] by (simp add: main_unfold split: option.splits)
  have c: "begun (fst (main w)) = all_steps urls \<and> snd (main w) = Returned"
    if "spin w (getElementById w (str ''spinner'')) = None"
      and "new_Viewer w (getElementById w (str ''renderer'')) = None"
      and "init w = Fulfilled ()" and "getResourceUrls w = Fulfilled urls"
      and "\<forall>url \<in> set urls. loadObject w url = Fulfilled ()"
    using that load_model_fulfilled [of w urls] by (simp add: main_unfold)
  have d: "snd (main w) = Waiting \<and> last (begun (fst (main w))) = st"
    if "st \<in> set (begun (fst (main w)))" and "pending w st" for st
    using that load_model_pending [of st w]
    by (auto simp: main_unfold split: option.splits)
  show ?thesis using a b c d by blast
qed


section \<open>Concrete runs\<close>

lemmas node_defs = example_tree_def echappement_node_def echappement_copy_def numbered_node_def
  id_echappement_def id_catalyseur_def Donnees_utilisateur_def doc_url_def str_def







lemmas panel_defs = control_panel_def addButton_def addBlade_def on_click_def do_call_def
  remove_old_def remove_blade_def recreated_def unit_box_def section_box_def

lemma example_URL_DOC:
  "URL_DOC_of (model echappement_node) = JStr doc_url"
  "URL_DOC_of (model echappement_copy) = JUndefined"
  "URL_DOC_of (model numbered_node) = JNum (Finite 42)"
  by (simp_all add: URL_DOC_of_def node_defs)

lemma doc_url_trim: "trim doc_url \<noteq> []"
  by (simp add: trim_def doc_url_def str_def is_js_whitespace_def)

lemma example_map_lookup:
  "example_map (JStr id_echappement) = Some echappement_copy"
  "example_map (JStr id_catalyseur) = None"
  by (simp_all add: example_map_def id_echappement_def id_catalyseur_def str_def)

theorem dropdown_known_value_zooms_witness:
  "example_map (JStr id_echappement) = Some echappement_copy
   \<and> calls (fst (dropdown_change example_map (str ''echappement'') (control_panel unit_box)))
       = [SectionsToggle, SectionsSetBox (section_box unit_box), ClearSelection,
          SetCameraView [str ''n2''] True]"
proof -
  have v: "str ''echappement'' = str ''echappement'' \<and> id_echappement = id_echappement
         \<or> str ''echappement'' = str ''catalyseur'' \<and> id_echappement = id_catalyseur"
    by simp
  show ?thesis
    using dropdown_known_value_zooms [of "str ''echappement''" id_echappement example_map
        echappement_copy "control_panel unit_box", OF v example_map_lookup(1)]
      example_map_lookup(1)
    by (simp add: echappement_copy_def) (simp add: panel_defs)
qed

theorem dropdown_failed_lookup_only_logs_witness:
  "example_map (JStr id_catalyseur) = None
   \<and> dropdown_change example_map (str ''catalyseur'') (control_panel unit_box)
       = ((control_panel unit_box)
            \<lparr>calls := [SectionsToggle, SectionsSetBox (section_box unit_box),
                       ConsoleLog (not_found_message (str ''catalyseur''))]\<rparr>, None)"
proof -
  have v: "str ''catalyseur'' = str ''echappement'' \<and> id_catalyseur = id_echappement
         \<or> str ''catalyseur'' = str ''catalyseur'' \<and> id_catalyseur = id_catalyseur"
    by simp
  have c: "calls (control_panel unit_box) = [SectionsToggle, SectionsSetBox (section_box unit_box)]"
    by (simp add: panel_defs)
  show ?thesis
    using dropdown_failed_lookup_only_logs [of "str ''catalyseur''" id_catalyseur example_map
        "control_panel unit_box", OF v example_map_lookup(2)]
      example_map_lookup(2)
    by (simp add: c)
qed

theorem objectClicked_without_hits_no_effect_witness:
  "objectClicked None (control_panel unit_box) = (control_panel unit_box, None)
   \<and> objectClicked (Some (SelectionEvent None)) (control_panel unit_box)
       = (control_panel unit_box, None)"
proof -
  have a: "(None :: SelectionEvent option) = None
         \<or> (\<exists>ev. (None :: SelectionEvent option) = Some ev \<and> hits ev = None)"
    by simp
  have b: "Some (SelectionEvent None) = None
         \<or> (\<exists>ev. Some (SelectionEvent None) = Some ev \<and> hits ev = None)"
    by simp
  show ?thesis
    using objectClicked_without_hits_no_effect [OF a, of "control_panel unit_box"]
      objectClicked_without_hits_no_effect [OF b, of "control_panel unit_box"]
    by simp
qed

lemma run_nil: "control_panel unit_box = run example_map [] (control_panel unit_box)"
  by (simp add: run_def)

theorem objectClicked_documentation_button_witness:
  "objectClicked (click_on echappement_node) (control_panel unit_box)
     = (recreated (control_panel unit_box) False [OpenUrl doc_url], None)
   \<and> calls (button_click 3 (recreated (control_panel unit_box) False [OpenUrl doc_url]))
       = [SectionsToggle, SectionsSetBox (section_box unit_box),
          WindowOpen doc_url (str ''_blank'')]
   \<and> objectClicked (click_on echappement_copy) (control_panel unit_box)
       = (recreated (control_panel unit_box) True [], None)"
proof -
  have n: "next_ref (control_panel unit_box) = 3"
    and c: "calls (control_panel unit_box) = [SectionsToggle, SectionsSetBox (section_box unit_box)]"
    by (simp_all add: panel_defs)
  have h1: "hits (SelectionEvent (Some [Hit echappement_node])) = Some (Hit echappement_node # [])"
    and h2: "hits (SelectionEvent (Some [Hit echappement_copy])) = Some (Hit echappement_copy # [])"
    by simp_all
  show ?thesis
    using objectClicked_documentation_button [OF run_nil h1]
      objectClicked_documentation_button [OF run_nil h2]
      example_URL_DOC doc_url_trim
    by (simp add: click_on_def n c)
qed

lemma parameterUrl_examples:
  "parameterUrl_of (model echappement_node) = Inr (JStr doc_url)"
  "parameterUrl_of (model numbered_node) = Inr (JNum (Finite 42))"
  by (simp_all add: parameterUrl_of_eq example_URL_DOC js_or_def doc_url_def str_def)

lemma documented_panel_eq:
  "documented_panel = recreated (control_panel unit_box) False [OpenUrl doc_url]"
proof -
  have "list_all (\<lambda>b. ref b < next_ref (control_panel unit_box)) (pane (control_panel unit_box))"
    by (simp add: panel_defs)
  then show ?thesis
    using createOrUpdateButton_enabled [OF _ doc_url_trim]
    by (simp add: documented_panel_def objectClicked_def click_on_def parameterUrl_examples)
qed

lemma documented_panel_fields:
  "btnUrlDoc documented_panel = Some 3"
  "doc_buttons documented_panel = [Button 3 Ouvrir_URL (Some Doc) False [OpenUrl doc_url]]"
  by (simp_all add: documented_panel_eq doc_buttons_def panel_defs Ouvrir_URL_def str_def)

lemma click_number:
  "objectClicked (click_on numbered_node) documented_panel
   = (remove_old documented_panel, Some TypeError)"
  by (simp add: objectClicked_def click_on_def parameterUrl_examples createOrUpdateButton_throws)

lemma number_click_buttons: "doc_buttons (remove_old documented_panel) = []"
  by (simp add: documented_panel_eq doc_buttons_def panel_defs Ouvrir_URL_def str_def)

text \<open>
  A click on a node whose \<open>URL_DOC\<close> is the number 42, in a panel that shows a
  documentation button: the handler removes the button, raises a TypeError, and creates no
  button, where claim C2 has the button created again disabled.
\<close>

theorem objectClicked_number_url_counterexample:
  "URL_DOC_of (model numbered_node) = JNum (Finite 42)
   \<and> snd (objectClicked (click_on numbered_node) documented_panel) = Some TypeError
   \<and> doc_buttons (fst (objectClicked (click_on numbered_node) documented_panel)) = []
   \<and> objectClicked (click_on numbered_node) documented_panel
       \<noteq> (recreated documented_panel True [], None)"
  by (simp add: click_number number_click_buttons example_URL_DOC)

lemma two_clicks_state:
  "run example_map two_clicks (control_panel unit_box) = remove_old documented_panel"
  by (simp add: run_def two_clicks_def click_number documented_panel_def [symmetric])

text \<open>
  After a click on a documented node and a click on the node whose \<open>URL_DOC\<close> is the
  number 42, \<open>btnUrlDoc\<close> refers to a button that is no longer in the panel, where
  claim C9 has it refer to the documentation button present.
\<close>

theorem stale_button_counterexample:
  "btnUrlDoc (run example_map two_clicks (control_panel unit_box)) = Some 3
   \<and> doc_buttons (run example_map two_clicks (control_panel unit_box)) = []
   \<and> \<not> refers_to_present (run example_map two_clicks (control_panel unit_box))"
  by (simp add: two_clicks_state number_click_buttons refers_to_present_def
      documented_panel_fields)

lemma one_click_state:
  "documented_panel = run example_map [ObjectClicked (click_on echappement_node)] (control_panel unit_box)"
  by (simp add: run_def documented_panel_def)

theorem documentation_button_invariant_witness:
  "length (doc_buttons documented_panel) \<le> 1
   \<and> snd (createOrUpdateButton JNull documented_panel) = None
   \<and> map ref (doc_buttons (fst (createOrUpdateButton JNull documented_panel))) = [4]
   \<and> refers_to_present (fst (createOrUpdateButton JNull documented_panel))"
proof -
  have n: "next_ref documented_panel = 4"
    by (simp add: documented_panel_eq panel_defs)
  have "\<not> truthy JNull \<or> (\<exists>u. JNull = JStr u)"
    by simp
  then show ?thesis
    using documentation_button_invariant [OF one_click_state, of JNull] n
    by simp
qed

theorem measurement_change_mirrored_witness:
  "extension_options
     (input_changed (Precision (Finite 3))
        \<lparr>params = measurementsParams, extension_enabled = False,
         extension_options = measurementsParams\<rparr>)
   = measurementsParams\<lparr>precision := Finite 3\<rparr>
   \<and> extension_enabled
       (input_changed (Enabled True)
          \<lparr>params = measurementsParams, extension_enabled = False,
           extension_options = measurementsParams\<rparr>)"
  using measurement_change_mirrored [of "Precision (Finite 3)"
      "\<lparr>params = measurementsParams, extension_enabled = False,
        extension_options = measurementsParams\<rparr>"]
    measurement_change_mirrored [of "Enabled True"
      "\<lparr>params = measurementsParams, extension_enabled = False,
        extension_options = measurementsParams\<rparr>"]
  by (simp add: input_changed_def)

lemmas world_defs = example_world_def stalled_world_def world_without_renderer_def
  world_without_spinner_def str_def

lemma stalled_begun:
  "begun (fst (main stalled_world))
   = [ViewerInit, GetResourceUrls, LoadObject (str ''u1''), LoadObject (str ''u2'')]"
  by (simp add: main_unfold load_model_def await_def sync_def extensions_def hide_loading_def
      world_defs)

theorem startup_steps_in_order_witness:
  "sequential [] (fst (main example_world))
   \<and> begun (fst (main example_world))
       = [ViewerInit, GetResourceUrls, LoadObject (str ''u1''), LoadObject (str ''u2'')]
   \<and> snd (main example_world) = Returned
   \<and> pending stalled_world (LoadObject (str ''u2''))
   \<and> snd (main stalled_world) = Waiting
   \<and> last (begun (fst (main stalled_world))) = LoadObject (str ''u2'')"
proof -
  have ok: "spin example_world (getElementById example_world (str ''spinner'')) = None
      \<and> new_Viewer example_world (getElementById example_world (str ''renderer'')) = None
      \<and> init example_world = Fulfilled ()
      \<and> getResourceUrls example_world = Fulfilled [str ''u1'', str ''u2'']
      \<and> (\<forall>url \<in> set [str ''u1'', str ''u2'']. loadObject example_world url = Fulfilled ())"
    by (simp add: world_defs)
  have p: "pending stalled_world (LoadObject (str ''u2''))"
    by (simp add: world_defs)
  have m: "LoadObject (str ''u2'') \<in> set (begun (fst (main stalled_world)))"
    by (simp add: stalled_begun)
  show ?thesis
    using startup_steps_in_order [of example_world "[str ''u1'', str ''u2'']"] ok
      startup_steps_in_order [of stalled_world "[]"] p m
    by (auto simp: all_steps_def)
qed



end
